theory Spec2Isabelle
  imports Main "HOL-Library.List_Lexorder" "HOL-Library.AList"
begin

text \<open>
  Latte is a browser LaTeX editor: a CodeMirror editor, a preview frame rendered by
  latex.js, and a small file system kept in \<open>localStorage\<close>. This theory embeds the
  session logic of \<open>src/main.js\<close>: the persisted records, the debounced render and
  auto-save timers, the asynchronous render, the file tree, and opening and creating
  files. The module's variables and the parts of the page it writes are one state record;
  a function of the source is a function on that state. The second source file is an
  earlier revision of the same module, without the file system and the error box; its
  \<open>scheduleRender\<close> is the same.
\<close>

section \<open>Strings\<close>

text \<open>
  A JavaScript string is a sequence of UTF-16 code units. The model keeps the code units
  as natural numbers, so that the one non-ASCII character of the starter documents (the
  em dash, U+2014) and the Unicode white space that \<open>String.prototype.trim\<close> removes are
  exact. \<open>js\<close> reads an ASCII literal; a backslash is the code unit 92 and a line feed 10.
\<close>

type_synonym jsstring = "nat list"

definition js :: "string \<Rightarrow> jsstring" where
  "js s = map of_char s"

text \<open>A string is truthy unless it is empty; \<open>null\<close> and \<open>undefined\<close> (\<open>None\<close>) are falsy.\<close>

definition truthy :: "jsstring \<Rightarrow> bool" where
  "truthy s = (s \<noteq> [])"

definition truthy_opt :: "jsstring option \<Rightarrow> bool" where
  "truthy_opt v = (case v of None \<Rightarrow> False | Some s \<Rightarrow> truthy s)"

text \<open>\<open>v || d\<close> for a string or absent value \<open>v\<close> and a string \<open>d\<close>.\<close>

definition or_else :: "jsstring option \<Rightarrow> jsstring \<Rightarrow> jsstring" where
  "or_else v d = (case v of None \<Rightarrow> d | Some s \<Rightarrow> if truthy s then s else d)"

text \<open>
  The code units \<open>trim\<close> strips: ECMAScript WhiteSpace (TAB, VT, FF, SP, NBSP, ZWNBSP and
  the space separators) and LineTerminator (LF, CR, LS, PS).
\<close>

definition is_white_space :: "nat \<Rightarrow> bool" where
  "is_white_space c =
     (c \<in> {9, 10, 11, 12, 13, 32, 160, 5760, 8232, 8233, 8239, 8287, 12288, 65279}
      \<or> (8192 \<le> c \<and> c \<le> 8202))"

definition trim :: "jsstring \<Rightarrow> jsstring" where
  "trim s = rev (dropWhile is_white_space (rev (dropWhile is_white_space s)))"

section \<open>Default document and templates\<close>

definition DEFAULT_DOC :: jsstring where
  "DEFAULT_DOC = concat
    [[92], js ''documentclass{article}'', [10],
     [10],
     [92], js ''title{Latte}'', [10],
     [92], js ''author{}'', [10],
     [92], js ''date{}'', [10],
     [10],
     [92], js ''begin{document}'', [10],
     [10],
     [92], js ''maketitle'', [10],
     [10],
     js ''Welcome to '', [92], js ''textbf{Latte} '', [8212], js '' a high-quality '', [92], js ''LaTeX{} editor.'', [10],
     [10],
     [92], js ''section{Introduction}'', [10],
     js ''Start writing your document here. The preview on the right'', [10],
     js ''updates automatically as you type.'', [10],
     [10],
     [92], js ''section{Mathematics}'', [10],
     js ''Inline math: $E = mc^2$'', [10],
     [10],
     js ''Display math:'', [10],
     [92], js ''['', [10],
     js ''  '', [92], js ''int_{-'', [92], js ''infty}^{'', [92], js ''infty} e^{-x^2}'', [92], js '', dx = '', [92], js ''sqrt{'', [92], js ''pi}'', [10],
     [92], js '']'', [10],
     [10],
     [92], js ''end{document}'']"

definition TEMPLATES_blank :: jsstring where
  "TEMPLATES_blank = concat
    [[92], js ''documentclass{article}'', [10],
     [10],
     [92], js ''begin{document}'', [10],
     [10],
     [10],
     [10],
     [92], js ''end{document}'']"

definition TEMPLATES_math :: jsstring where
  "TEMPLATES_math = concat
    [[92], js ''documentclass{article}'', [10],
     [92], js ''usepackage{amsmath}'', [10],
     [92], js ''usepackage{amssymb}'', [10],
     [10],
     [92], js ''title{Mathematics}'', [10],
     [92], js ''date{}'', [10],
     [10],
     [92], js ''begin{document}'', [10],
     [10],
     [92], js ''maketitle'', [10],
     [10],
     [92], js ''section{Calculus}'', [10],
     [10],
     js ''The fundamental theorem of calculus:'', [10],
     [92], js ''['', [10],
     js ''  '', [92], js ''int_a^b f'(x)'', [92], js '',dx = f(b) - f(a)'', [10],
     [92], js '']'', [10],
     [10],
     [92], js ''section{Algebra}'', [10],
     [10],
     js ''The quadratic formula: $x = '', [92], js ''dfrac{-b '', [92], js ''pm '', [92], js ''sqrt{b^2 - 4ac}}{2a}$'', [10],
     [10],
     [92], js ''section{Series}'', [10],
     [10],
     js ''Euler's identity: $e^{i'', [92], js ''pi} + 1 = 0$'', [10],
     [10],
     js ''Taylor series: $e^x = '', [92], js ''sum_{n=0}^{'', [92], js ''infty} '', [92], js ''dfrac{x^n}{n!}$'', [10],
     [10],
     [92], js ''end{document}'']"

definition TEMPLATES_letter :: jsstring where
  "TEMPLATES_letter = concat
    [[92], js ''documentclass{letter}'', [10],
     [10],
     [92], js ''begin{document}'', [10],
     [10],
     [92], js ''begin{letter}{Recipient Name'', [92], [92], js ''Street Address'', [92], [92], js ''City, Country}'', [10],
     [10],
     [92], js ''opening{Dear Sir or Madam,}'', [10],
     [10],
     js ''I am writing to you regarding the matter discussed previously.'', [10],
     js ''Please find my thoughts enclosed herein.'', [10],
     [10],
     [92], js ''closing{Sincerely,}'', [10],
     [10],
     [92], js ''end{letter}'', [10],
     [10],
     [92], js ''end{document}'']"

text \<open>
  The own properties of the \<open>TEMPLATES\<close> object literal. \<open>TEMPLATES[key]\<close> also sees the
  members every plain object inherits from \<open>Object.prototype\<close>; those are listed in
  \<open>Object_prototype_keys\<close> and none of them is a string.
\<close>

definition TEMPLATES :: "jsstring \<Rightarrow> jsstring option" where
  "TEMPLATES k =
     (if k = js ''blank'' then Some TEMPLATES_blank
      else if k = js ''article'' then Some DEFAULT_DOC
      else if k = js ''math'' then Some TEMPLATES_math
      else if k = js ''letter'' then Some TEMPLATES_letter
      else None)"

definition Object_prototype_keys :: "jsstring list" where
  "Object_prototype_keys =
     [js ''constructor'', js ''__defineGetter__'', js ''__defineSetter__'',
      js ''hasOwnProperty'', js ''__lookupGetter__'', js ''__lookupSetter__'',
      js ''isPrototypeOf'', js ''propertyIsEnumerable'', js ''toString'', js ''valueOf'',
      js ''__proto__'', js ''toLocaleString'']"

section \<open>Documents and the persisted records\<close>

text \<open>
  A file object \<open>{ id, name, folder, content }\<close>. \<open>folder\<close> may be absent in a
  record read back from storage, which is why the code writes \<open>file.folder || ''\<close>.
\<close>

record doc =
  doc_id :: jsstring
  name :: jsstring
  folder :: "jsstring option"
  content :: jsstring

datatype exn = SecurityError | QuotaExceededError | SyntaxError | TypeError

datatype key = STORAGE_KEY | CURRENT_KEY

text \<open>
  \<open>localStorage\<close>: the two items the program uses, and the two ways the medium fails.
  When it is \<open>unavailable\<close> every access throws; when it is \<open>full\<close>, \<open>setItem\<close> throws.
\<close>

record localStorage =
  latte_files_v1 :: "jsstring option"
  latte_current_v1 :: "jsstring option"
  unavailable :: bool
  full :: bool

definition getItem :: "localStorage \<Rightarrow> key \<Rightarrow> exn + jsstring option" where
  "getItem ls k =
     (if unavailable ls then Inl SecurityError
      else Inr (case k of STORAGE_KEY \<Rightarrow> latte_files_v1 ls | CURRENT_KEY \<Rightarrow> latte_current_v1 ls))"

definition setItem :: "localStorage \<Rightarrow> key \<Rightarrow> jsstring \<Rightarrow> exn + localStorage" where
  "setItem ls k v =
     (if unavailable ls then Inl SecurityError
      else if full ls then Inl QuotaExceededError
      else Inr (case k of STORAGE_KEY \<Rightarrow> ls\<lparr>latte_files_v1 := Some v\<rparr>
                        | CURRENT_KEY \<Rightarrow> ls\<lparr>latte_current_v1 := Some v\<rparr>))"

definition removeItem :: "localStorage \<Rightarrow> key \<Rightarrow> exn + localStorage" where
  "removeItem ls k =
     (if unavailable ls then Inl SecurityError
      else Inr (case k of STORAGE_KEY \<Rightarrow> ls\<lparr>latte_files_v1 := None\<rparr>
                        | CURRENT_KEY \<Rightarrow> ls\<lparr>latte_current_v1 := None\<rparr>))"

section \<open>The collaborators outside the repository\<close>

text \<open>
  \<open>JSON.stringify\<close> and \<open>JSON.parse\<close>, and the latex.js compiler together with the DOM
  serialisation of its output, are parameters. \<open>JSON_parse\<close> either throws or yields a JSON
  value, whatever its shape; the value of a number plays no part and is left out.
  \<open>latex_compile\<close> stands for lines 153 to 155 of \<open>renderLatex\<close> (\<open>getLatex\<close>, the
  generator, \<open>parse(src).htmlDocument()\<close>), which either raise an error or yield a document.
\<close>

datatype json =
  JNull | JBool bool | JNumber | JString jsstring | JArray "json list"
  | JObject "(jsstring \<times> json) list"

text \<open>
  The JSON values that are file objects: an object whose \<open>id\<close>, \<open>name\<close> and \<open>content\<close> are
  strings and whose \<open>folder\<close> is a string, \<open>null\<close> or absent. \<open>as_files\<close> reads an array of
  file objects; any other value is not a collection the state record can hold.
\<close>

definition as_file :: "json \<Rightarrow> doc option" where
  "as_file v =
     (case v of
        JObject kv \<Rightarrow>
          (case (map_of kv (js ''id''), map_of kv (js ''name''), map_of kv (js ''content'')) of
             (Some (JString i), Some (JString n), Some (JString c)) \<Rightarrow>
               (case map_of kv (js ''folder'') of
                  None \<Rightarrow> Some \<lparr>doc_id = i, name = n, folder = None, content = c\<rparr>
                | Some JNull \<Rightarrow> Some \<lparr>doc_id = i, name = n, folder = None, content = c\<rparr>
                | Some (JString f) \<Rightarrow>
                    Some \<lparr>doc_id = i, name = n, folder = Some f, content = c\<rparr>
                | Some _ \<Rightarrow> None)
           | _ \<Rightarrow> None)
      | _ \<Rightarrow> None)"

fun those_files :: "json list \<Rightarrow> doc list option" where
  "those_files [] = Some []"
| "those_files (v # vs) =
     (case as_file v of
        None \<Rightarrow> None
      | Some d \<Rightarrow> (case those_files vs of None \<Rightarrow> None | Some ds \<Rightarrow> Some (d # ds)))"

definition as_files :: "json \<Rightarrow> doc list option" where
  "as_files v = (case v of JArray vs \<Rightarrow> those_files vs | _ \<Rightarrow> None)"

datatype node = Link jsstring jsstring | Style jsstring | Node jsstring

record html_document =
  head :: "node list"
  body :: jsstring

record js_error =
  message :: "jsstring option"
  string_form :: jsstring

record host =
  JSON_stringify :: "doc list \<Rightarrow> jsstring"
  JSON_parse :: "jsstring \<Rightarrow> exn + json"
  latex_compile :: "jsstring \<Rightarrow> js_error + html_document"
  outerHTML :: "html_document \<Rightarrow> jsstring"

section \<open>Module state\<close>

text \<open>
  One item of the rendered file tree (\<open>makeFileItem\<close>), and the tree itself: the
  placeholder paragraph for an empty collection, or the root items followed by the folder
  items (\<open>makeFolderItem\<close>: header text and children).
\<close>

record file_item =
  active :: bool
  fileId :: jsstring
  textContent :: jsstring

datatype file_tree = NoSavedFiles | FileTreeList "file_item list" "(jsstring \<times> file_item list) list"

text \<open>
  The module-level variables, the editor's document, the preview frame and error box, the
  file-tree container, and the two pending timeouts. A pending timeout is its due time and
  the source text its callback closes over. \<open>in_flight\<close> are the \<open>renderLatex\<close> calls
  suspended at \<open>await getLatex()\<close>, oldest first; \<open>clock\<close> is the time in milliseconds.
\<close>

record state =
  files :: "doc list"
  currentFileId :: "jsstring option"
  storage :: localStorage
  view_doc :: jsstring
  renderTimer :: "(nat \<times> jsstring) option"
  autoSaveTimer :: "(nat \<times> jsstring) option"
  in_flight :: "jsstring list"
  frame_srcdoc :: jsstring
  errorBox_text :: jsstring
  errorBox_hidden :: bool
  file_tree_container :: file_tree
  clock :: nat

text \<open>
  A call completes normally or abruptly (with the exception it throws); either way the
  mutations it made stay.
\<close>

type_synonym outcome = "exn option \<times> state"

definition andThen :: "outcome \<Rightarrow> (state \<Rightarrow> outcome) \<Rightarrow> outcome" where
  "andThen r k = (case r of (None, st) \<Rightarrow> k st | (Some e, st) \<Rightarrow> (Some e, st))"

section \<open>File system (localStorage)\<close>

definition find_file :: "jsstring \<Rightarrow> doc list \<Rightarrow> doc option" where
  "find_file i fs = find (\<lambda>f. doc_id f = i) fs"

text \<open>
  \<open>loadFiles\<close>: two \<open>try\<close> blocks, each with a handler that swallows the exception. It
  reads the storage and assigns \<open>files\<close> and \<open>currentFileId\<close>; the model returns the two
  values it assigns. \<open>files\<close> takes whatever \<open>JSON.parse\<close> returns, array or not.
\<close>

record loaded =
  loaded_files :: json
  loaded_currentFileId :: "jsstring option"

definition loadFiles :: "host \<Rightarrow> localStorage \<Rightarrow> exn option \<times> loaded" where
  "loadFiles h ls =
     (let fs = (case getItem ls STORAGE_KEY of
                  Inl e \<Rightarrow> JArray []
                | Inr None \<Rightarrow> JArray []
                | Inr (Some raw) \<Rightarrow>
                    (if truthy raw
                     then (case JSON_parse h raw of Inl e \<Rightarrow> JArray [] | Inr parsed \<Rightarrow> parsed)
                     else JArray []));
          cur = (case getItem ls CURRENT_KEY of
                   Inl e \<Rightarrow> None
                 | Inr v \<Rightarrow> if truthy_opt v then v else None)
      in (None, \<lparr>loaded_files = fs, loaded_currentFileId = cur\<rparr>))"

definition saveFiles :: "host \<Rightarrow> state \<Rightarrow> outcome" where
  "saveFiles h st =
     (case setItem (storage st) STORAGE_KEY (JSON_stringify h (files st)) of
        Inr ls \<Rightarrow> (None, st\<lparr>storage := ls\<rparr>)
      | Inl e \<Rightarrow> (None, st))"

definition saveCurrentId :: "state \<Rightarrow> outcome" where
  "saveCurrentId st =
     (case (case currentFileId st of
              None \<Rightarrow> removeItem (storage st) CURRENT_KEY
            | Some c \<Rightarrow> if truthy c then setItem (storage st) CURRENT_KEY c
                       else removeItem (storage st) CURRENT_KEY) of
        Inr ls \<Rightarrow> (None, st\<lparr>storage := ls\<rparr>)
      | Inl e \<Rightarrow> (None, st))"

section \<open>Render LaTeX into the preview iframe\<close>

definition katexCSS :: node where
  "katexCSS = Link (js ''stylesheet'')
     (js ''https://cdn.jsdelivr.net/npm/katex@0.16.9/dist/katex.min.css'')"

definition latexCSS :: node where
  "latexCSS = Link (js ''stylesheet'')
     (js ''https://cdn.jsdelivr.net/npm/latex.js@0.12.6/dist/latex.css'')"

definition style_textContent :: jsstring where
  "style_textContent = concat
    [[10],
     js ''      body { font-family: 'Georgia', serif; padding: 3rem 4rem;'', [10],
     js ''             max-width: 780px; margin: 0 auto; line-height: 1.65;'', [10],
     js ''             color: #1a1208; background: #fff; }'', [10],
     js ''      @media (max-width: 600px) { body { padding: 1.5rem 1rem; } }'', [10],
     js ''    '']"

text \<open>\<open>err.message || String(err)\<close>\<close>

definition error_text :: "js_error \<Rightarrow> jsstring" where
  "error_text err = or_else (message err) (string_form err)"

text \<open>
  \<open>renderLatex\<close> is an \<open>async\<close> function with one suspension point, \<open>await getLatex()\<close>.
  \<open>renderLatex\<close> is the call up to that point: the call is registered with the source it
  was given. \<open>renderLatex_resume\<close> is the rest of the body, run when the awaited module is
  there: it compiles that source and writes the frame or the error box. Nothing in it
  reads \<open>currentFileId\<close>, \<open>files\<close> or the editor.
\<close>

definition renderLatex :: "jsstring \<Rightarrow> state \<Rightarrow> state" where
  "renderLatex src st = st\<lparr>in_flight := in_flight st @ [src]\<rparr>"

definition renderLatex_resume :: "host \<Rightarrow> jsstring \<Rightarrow> state \<Rightarrow> state" where
  "renderLatex_resume h src st =
     (case latex_compile h src of
        Inr d \<Rightarrow>
          st\<lparr>frame_srcdoc :=
               js ''<!DOCTYPE html>''
               @ outerHTML h (d\<lparr>head := head d @ [katexCSS, latexCSS, Style style_textContent]\<rparr>),
             errorBox_text := [],
             errorBox_hidden := True\<rparr>
      | Inl err \<Rightarrow> st\<lparr>errorBox_text := error_text err, errorBox_hidden := False\<rparr>)"

text \<open>The oldest suspended \<open>renderLatex\<close> call resumes.\<close>

definition import_resolved :: "host \<Rightarrow> state \<Rightarrow> state" where
  "import_resolved h st =
     (case in_flight st of
        [] \<Rightarrow> st
      | src # rest \<Rightarrow> renderLatex_resume h src (st\<lparr>in_flight := rest\<rparr>))"

section \<open>Debounced render trigger\<close>

text \<open>\<open>clearTimeout(renderTimer)\<close> followed by \<open>setTimeout(() => renderLatex(src), 450)\<close>.\<close>

definition scheduleRender :: "jsstring \<Rightarrow> state \<Rightarrow> state" where
  "scheduleRender src st = st\<lparr>renderTimer := Some (clock st + 450, src)\<rparr>"

text \<open>
  The event loop runs the pending render timeout. A timeout never runs before it is due;
  it may run any time later.
\<close>

definition renderTimer_callback :: "state \<Rightarrow> state" where
  "renderTimer_callback st =
     (case renderTimer st of
        None \<Rightarrow> st
      | Some (due, src) \<Rightarrow>
          if due \<le> clock st then renderLatex src (st\<lparr>renderTimer := None\<rparr>) else st)"

section \<open>Auto-save\<close>

definition scheduleAutoSave :: "jsstring \<Rightarrow> state \<Rightarrow> state" where
  "scheduleAutoSave src st = st\<lparr>autoSaveTimer := Some (clock st + 1000, src)\<rparr>"

text \<open>\<open>file.content = c\<close> on the object that \<open>files.find(f => f.id === i)\<close> returned.\<close>

fun set_content :: "jsstring \<Rightarrow> jsstring \<Rightarrow> doc list \<Rightarrow> doc list" where
  "set_content i c [] = []"
| "set_content i c (f # fs) =
     (if doc_id f = i then f\<lparr>content := c\<rparr> # fs else f # set_content i c fs)"

definition autoSave :: "host \<Rightarrow> jsstring \<Rightarrow> state \<Rightarrow> outcome" where
  "autoSave h src st =
     (case currentFileId st of
        None \<Rightarrow> (None, st)
      | Some c \<Rightarrow>
          if \<not> truthy c then (None, st)
          else (case find_file c (files st) of
                  Some file \<Rightarrow> saveFiles h (st\<lparr>files := set_content c src (files st)\<rparr>)
                | None \<Rightarrow> (None, st)))"

definition autoSaveTimer_callback :: "host \<Rightarrow> state \<Rightarrow> outcome" where
  "autoSaveTimer_callback h st =
     (case autoSaveTimer st of
        None \<Rightarrow> (None, st)
      | Some (due, src) \<Rightarrow>
          if due \<le> clock st then autoSave h src (st\<lparr>autoSaveTimer := None\<rparr>) else (None, st))"

section \<open>The editor\<close>

text \<open>
  The editor keeps its document as lines: inserted text is split at CR LF, CR and LF, and
  \<open>doc.toString()\<close> joins the lines with LF. So a text read from the editor has no CR.
\<close>

fun normalise_newlines :: "jsstring \<Rightarrow> jsstring" where
  "normalise_newlines [] = []"
| "normalise_newlines [c] = [if c = 13 then 10 else c]"
| "normalise_newlines (c # d # ds) =
     (if c = 13 then (if d = 10 then 10 # normalise_newlines ds
                      else 10 # normalise_newlines (d # ds))
      else c # normalise_newlines (d # ds))"

text \<open>
  The update listener, run with the editor's new document in place. \<open>editor_input\<close> is a
  change made by the user, given by the text the editor holds after it;
  \<open>dispatch_replace\<close> is the transaction that replaces the whole document by the inserted
  text, which changes the document unless it replaces nothing by nothing.
\<close>

definition updateListener :: "bool \<Rightarrow> state \<Rightarrow> state" where
  "updateListener docChanged st =
     (if docChanged then scheduleAutoSave (view_doc st) (scheduleRender (view_doc st) st)
      else st)"

definition editor_input :: "jsstring \<Rightarrow> state \<Rightarrow> state" where
  "editor_input src st = updateListener True (st\<lparr>view_doc := src\<rparr>)"

definition dispatch_replace :: "jsstring \<Rightarrow> state \<Rightarrow> state" where
  "dispatch_replace ins st =
     updateListener (\<not> (view_doc st = [] \<and> ins = []))
       (st\<lparr>view_doc := normalise_newlines ins\<rparr>)"

section \<open>File tree rendering\<close>

text \<open>
  \<open>folders\<close> is a plain object used as a dictionary: its own properties, in insertion
  order, are an association list. \<open>folders[folder]\<close> finds an own property or else a member
  inherited from \<open>Object.prototype\<close>, which is truthy and has no \<open>push\<close>: the call then
  throws a TypeError.
\<close>

fun group_files ::
  "doc list \<Rightarrow> doc list \<times> (jsstring \<times> doc list) list
     \<Rightarrow> exn + doc list \<times> (jsstring \<times> doc list) list" where
  "group_files [] acc = Inr acc"
| "group_files (file # rest) (root, folders) =
     (let fld = trim (or_else (folder file) [])
      in if \<not> truthy fld then group_files rest (root @ [file], folders)
         else (case map_of folders fld of
                 Some arr \<Rightarrow> group_files rest (root, AList.update fld (arr @ [file]) folders)
               | None \<Rightarrow>
                   if fld \<in> set Object_prototype_keys then Inl TypeError
                   else group_files rest (root, AList.update fld [file] folders)))"

definition makeFileItem :: "state \<Rightarrow> doc \<Rightarrow> file_item" where
  "makeFileItem st file =
     \<lparr>active = (currentFileId st = Some (doc_id file)),
      fileId = doc_id file,
      textContent = [55357, 56516, 32] @ name file\<rparr>"

definition makeFolderItem :: "state \<Rightarrow> jsstring \<Rightarrow> doc list \<Rightarrow> jsstring \<times> file_item list" where
  "makeFolderItem st folderName folderFiles =
     ([55357, 56513, 32] @ folderName, map (makeFileItem st) folderFiles)"

text \<open>
  \<open>Object.keys(folders).sort()\<close>: the default sort compares strings by code units, and
  the keys are distinct, so the result does not depend on the order \<open>Object.keys\<close> lists
  them in. The container element is taken to be in the page. When the grouping loop throws,
  the container has not been written yet.
\<close>

definition sorted_keys :: "(jsstring \<times> doc list) list \<Rightarrow> jsstring list" where
  "sorted_keys folders = sort (map fst folders)"

definition own :: "(jsstring \<times> doc list) list \<Rightarrow> jsstring \<Rightarrow> doc list" where
  "own folders k = (case map_of folders k of Some arr \<Rightarrow> arr | None \<Rightarrow> [])"

definition renderFileTree :: "state \<Rightarrow> outcome" where
  "renderFileTree st =
     (if files st = [] then (None, st\<lparr>file_tree_container := NoSavedFiles\<rparr>)
      else (case group_files (files st) ([], []) of
              Inl e \<Rightarrow> (Some e, st)
            | Inr (root, folders) \<Rightarrow>
                (None, st\<lparr>file_tree_container :=
                   FileTreeList (map (makeFileItem st) root)
                     (map (\<lambda>k. makeFolderItem st k (own folders k)) (sorted_keys folders))\<rparr>)))"

section \<open>Open a file from the tree\<close>

definition save_current_first :: "host \<Rightarrow> state \<Rightarrow> outcome" where
  "save_current_first h st =
     (case currentFileId st of
        None \<Rightarrow> (None, st)
      | Some c \<Rightarrow>
          if \<not> truthy c then (None, st)
          else (case find_file c (files st) of
                  Some cur \<Rightarrow> saveFiles h (st\<lparr>files := set_content c (view_doc st) (files st)\<rparr>)
                | None \<Rightarrow> (None, st)))"

definition openFile :: "host \<Rightarrow> jsstring \<Rightarrow> state \<Rightarrow> outcome" where
  "openFile h i st =
     andThen (save_current_first h st) (\<lambda>st1.
       case find_file i (files st1) of
         None \<Rightarrow> (None, st1)
       | Some file \<Rightarrow>
           andThen (saveCurrentId (st1\<lparr>currentFileId := Some (doc_id file)\<rparr>)) (\<lambda>st2.
             renderFileTree (dispatch_replace (content file) st2)))"

section \<open>Create a new file\<close>

text \<open>
  \<open>TEMPLATES[templateKey] || TEMPLATES.blank\<close>. For a key that names an inherited member
  the value is that member, not a string: there is no document content to model, and the
  result is \<open>None\<close>.
\<close>

definition template_content :: "jsstring \<Rightarrow> jsstring option" where
  "template_content k =
     (case TEMPLATES k of
        Some c \<Rightarrow> Some (if truthy c then c else TEMPLATES_blank)
      | None \<Rightarrow> if k \<in> set Object_prototype_keys then None else Some TEMPLATES_blank)"

text \<open>
  \<open>generateId()\<close> reads the clock and the random number generator; its result is the
  parameter \<open>newId\<close>.
\<close>

definition createFile ::
  "host \<Rightarrow> jsstring \<Rightarrow> jsstring option \<Rightarrow> jsstring \<Rightarrow> jsstring \<Rightarrow> state \<Rightarrow> outcome option" where
  "createFile h nm fld templateKey newId st =
     (case template_content templateKey of
        None \<Rightarrow> None
      | Some c \<Rightarrow>
          Some (let file = \<lparr>doc_id = newId,
                            name = or_else (Some (trim nm)) (js ''Untitled''),
                            folder = Some (trim (or_else fld [])),
                            content = c\<rparr>
                in andThen (saveFiles h (st\<lparr>files := files st @ [file]\<rparr>)) (\<lambda>st1.
                     andThen (openFile h (doc_id file) st1) renderFileTree)))"

section \<open>Startup\<close>

text \<open>
  When \<open>files\<close> has been given a value that is not an array of file objects, the session
  has no state the record describes. The model then only tells how the startup code ends
  where that is settled by the value alone: \<open>files.find\<close> is not a function on anything
  but an array and reads the \<open>id\<close> of every element up to the match, \<open>files.length\<close>
  cannot be read from \<open>null\<close>, the \<open>for\<close> loop needs an iterable and reads the \<open>folder\<close>
  of every element. The other cases are left open.
\<close>

datatype startup_result = Started outcome | Aborted exn | Unmodelled

definition has_id :: "jsstring \<Rightarrow> json \<Rightarrow> bool" where
  "has_id c v = (case v of JObject kv \<Rightarrow> map_of kv (js ''id'') = Some (JString c) | _ \<Rightarrow> False)"

definition startup_ill_typed :: "json \<Rightarrow> jsstring option \<Rightarrow> startup_result" where
  "startup_ill_typed v cur =
     (case v of
        JNull \<Rightarrow> Aborted TypeError
      | JBool b \<Rightarrow> Aborted TypeError
      | JNumber \<Rightarrow> Aborted TypeError
      | JString s \<Rightarrow> if truthy_opt cur then Aborted TypeError else Unmodelled
      | JObject kv \<Rightarrow>
          if truthy_opt cur then Aborted TypeError
          else if map_of kv (js ''length'') = None then Aborted TypeError
          else Unmodelled
      | JArray vs \<Rightarrow>
          if JNull \<in> set vs
             \<and> (case cur of
                  None \<Rightarrow> True
                | Some c \<Rightarrow>
                    \<not> truthy c \<or> \<not> list_ex (has_id c) (takeWhile (\<lambda>x. x \<noteq> JNull) vs))
          then Aborted TypeError
          else Unmodelled)"

definition startup :: "host \<Rightarrow> state \<Rightarrow> startup_result" where
  "startup h st =
     (case loadFiles h (storage st) of
        (Some e, l) \<Rightarrow> Aborted e
      | (None, l) \<Rightarrow>
          (case as_files (loaded_files l) of
             None \<Rightarrow> startup_ill_typed (loaded_files l) (loaded_currentFileId l)
           | Some fs \<Rightarrow>
               (let st1 = st\<lparr>files := fs, currentFileId := loaded_currentFileId l\<rparr>
                in Started
                     (renderFileTree
                        (case currentFileId st1 of
                           None \<Rightarrow> st1
                         | Some c \<Rightarrow>
                             if \<not> truthy c then st1
                             else (case find_file c (files st1) of
                                     Some file \<Rightarrow>
                                       scheduleRender (content file)
                                         (dispatch_replace (content file) st1)
                                   | None \<Rightarrow> st1\<lparr>currentFileId := None\<rparr>))))))"

section \<open>Example data\<close>

text \<open>
  A concrete host and a concrete session for evaluating the definitions: a serialiser that
  lists ids and contents, a parser that knows four texts, and a compiler that
  rejects the empty source.
\<close>

definition ex_host :: host where
  "ex_host =
     \<lparr>JSON_stringify = (\<lambda>fs. concat (map (\<lambda>f. doc_id f @ [58] @ content f @ [59]) fs)),
      JSON_parse =
        (\<lambda>raw. if raw = js ''[]'' then Inr (JArray [])
               else if raw = js ''null'' then Inr JNull
               else if raw = js ''{}'' then Inr (JObject [])
               else if raw = js ''[null]'' then Inr (JArray [JNull])
               else Inl SyntaxError),
      latex_compile =
        (\<lambda>src. if src = []
               then Inl \<lparr>message = Some (js ''empty input''),
                         string_form = js ''Error: empty input''\<rparr>
               else Inr \<lparr>head = [], body = src\<rparr>),
      outerHTML = (\<lambda>d. js ''<html>'' @ body d @ js ''</html>'')\<rparr>"

definition ex_storage :: localStorage where
  "ex_storage =
     \<lparr>latte_files_v1 = None, latte_current_v1 = None, unavailable = False, full = False\<rparr>"

definition ex_doc :: "string \<Rightarrow> string \<Rightarrow> doc" where
  "ex_doc i c = \<lparr>doc_id = js i, name = js i, folder = Some [], content = js c\<rparr>"

definition ex_state :: state where
  "ex_state =
     \<lparr>files = [ex_doc ''a'' ''x'', ex_doc ''b'' ''y''],
      currentFileId = Some (js ''a''),
      storage = ex_storage,
      view_doc = js ''x'',
      renderTimer = None,
      autoSaveTimer = None,
      in_flight = [],
      frame_srcdoc = [],
      errorBox_text = [],
      errorBox_hidden = True,
      file_tree_container = NoSavedFiles,
      clock = 0\<rparr>"


definition ex_corrupt :: state where
  "ex_corrupt =
     ex_state\<lparr>files := [], currentFileId := None,
       storage := ex_storage\<lparr>latte_files_v1 := Some (js ''{oops''),
                              latte_current_v1 := Some (js ''a'')\<rparr>\<rparr>"

section \<open>Events of a session\<close>

text \<open>
  What can happen while a document is being edited: time passes, the user changes the
  text, a pending timeout runs, or the awaited compiler module arrives. A timeout
  callback that is not yet due leaves the state as it is. An exception thrown by a
  callback ends the callback only; the state it left stays.
\<close>

datatype event = Elapse nat | EditorInput jsstring | RenderTimeout | AutoSaveTimeout | ImportResolved

fun step :: "host \<Rightarrow> state \<Rightarrow> event \<Rightarrow> state" where
  "step h st (Elapse n) = st\<lparr>clock := clock st + n\<rparr>"
| "step h st (EditorInput src) = editor_input src st"
| "step h st RenderTimeout = renderTimer_callback st"
| "step h st AutoSaveTimeout = snd (autoSaveTimer_callback h st)"
| "step h st ImportResolved = import_resolved h st"

definition run :: "host \<Rightarrow> state \<Rightarrow> event list \<Rightarrow> state" where
  "run h st evs = foldl (step h) st evs"

section \<open>A burst of calls to the render trigger\<close>

text \<open>
  The render trigger seen alone: \<open>scheduleRender\<close> is called, time passes, or the event
  loop runs the timeout callback. No compile lands in such a trace, so \<open>in_flight\<close>
  lists, in order, the sources \<open>renderLatex\<close> was called with. \<open>burst g es\<close> says that every
  call in \<open>es\<close> comes less than 450 ms after the call before it, \<open>g\<close> being the time since the
  last call so far; \<open>last_call\<close> is the source of the last call and \<open>quiet\<close> the time
  that has passed since it.
\<close>

datatype pipeline_event = Call jsstring | Pass nat | Timeout

fun pipeline_step :: "state \<Rightarrow> pipeline_event \<Rightarrow> state" where
  "pipeline_step st (Call src) = scheduleRender src st"
| "pipeline_step st (Pass n) = st\<lparr>clock := clock st + n\<rparr>"
| "pipeline_step st Timeout = renderTimer_callback st"

fun burst :: "nat \<Rightarrow> pipeline_event list \<Rightarrow> bool" where
  "burst g [] = True"
| "burst g (Call src # es) = (g < 450 \<and> burst 0 es)"
| "burst g (Pass n # es) = burst (g + n) es"
| "burst g (Timeout # es) = burst g es"

fun last_call :: "jsstring \<Rightarrow> pipeline_event list \<Rightarrow> jsstring" where
  "last_call s [] = s"
| "last_call s (Call src # es) = last_call src es"
| "last_call s (Pass n # es) = last_call s es"
| "last_call s (Timeout # es) = last_call s es"

fun quiet :: "nat \<Rightarrow> pipeline_event list \<Rightarrow> nat" where
  "quiet g [] = g"
| "quiet g (Call src # es) = quiet 0 es"
| "quiet g (Pass n # es) = quiet (g + n) es"
| "quiet g (Timeout # es) = quiet g es"

text \<open>What holds of the pending timeout after a burst, \<open>g\<close> ms after the call with \<open>s\<close>.\<close>

definition debounce_inv :: "state \<Rightarrow> nat \<Rightarrow> jsstring \<Rightarrow> jsstring list \<Rightarrow> bool" where
  "debounce_inv st g s base =
     (case renderTimer st of
        Some (due, src) \<Rightarrow> src = s \<and> due + g = clock st + 450 \<and> in_flight st = base
      | None \<Rightarrow> in_flight st = base @ [s] \<and> 450 \<le> g)"

text \<open>
  A session in which the user edits document \<open>a\<close>, the render timeout runs and the compile
  is suspended on the module import, and the user then opens document \<open>b\<close>.
\<close>

definition ex_switched :: state where
  "ex_switched =
     snd (openFile ex_host (js ''b'')
       (run ex_host ex_state [EditorInput (js ''x2''), Elapse 450, RenderTimeout]))"

section \<open>Example collections for the file tree\<close>

text \<open>The bucket a file goes to: \<open>(file.folder || '').trim()\<close>.\<close>

definition folder_key :: "doc \<Rightarrow> jsstring" where
  "folder_key f = trim (or_else (folder f) [])"

definition ex_inherited :: state where
  "ex_inherited =
     ex_state\<lparr>files := [\<lparr>doc_id = js ''n1'', name = js ''notes'',
                           folder = Some (js ''constructor''), content = []\<rparr>]\<rparr>"

definition ex_foldered :: state where
  "ex_foldered =
     ex_state\<lparr>files :=
       [\<lparr>doc_id = js ''1'', name = js ''p'', folder = Some (js ''Notes''), content = []\<rparr>,
        \<lparr>doc_id = js ''2'', name = js ''q'', folder = Some (js ''  ''), content = []\<rparr>,
        \<lparr>doc_id = js ''3'', name = js ''r'', folder = Some (js ''Alpha''), content = []\<rparr>,
        \<lparr>doc_id = js ''4'', name = js ''s'', folder = None, content = []\<rparr>,
        \<lparr>doc_id = js ''5'', name = js ''t'', folder = Some (js ''Notes''), content = []\<rparr>,
        \<lparr>doc_id = js ''6'', name = js ''u'', folder = Some [], content = []\<rparr>]\<rparr>"

section \<open>Saving never throws\<close>

lemma saveFiles_normal: "fst (saveFiles h st) = None"
  by (simp add: saveFiles_def split: sum.splits)

lemma saveCurrentId_normal: "fst (saveCurrentId st) = None"
  by (simp add: saveCurrentId_def split: sum.splits option.splits)

text \<open>
  C6. \<open>saveFiles\<close> and \<open>saveCurrentId\<close> complete normally whatever the medium does, and
  leave \<open>files\<close> as it was, so \<open>list()\<close> and \<open>find(id)\<close> answer as before. When the medium
  rejects the write (it is unavailable, or full for a \<open>setItem\<close>), the whole state is as it
  was before the save.
\<close>

theorem failed_save_is_invisible:
  "fst (saveFiles h st) = None \<and> fst (saveCurrentId st) = None
   \<and> files (snd (saveFiles h st)) = files st
   \<and> files (snd (saveCurrentId st)) = files st
   \<and> find_file i (files (snd (saveFiles h st))) = find_file i (files st)
   \<and> find_file i (files (snd (saveCurrentId st))) = find_file i (files st)
   \<and> (unavailable (storage st) \<or> full (storage st) \<longrightarrow> snd (saveFiles h st) = st)
   \<and> (unavailable (storage st) \<or> full (storage st) \<and> truthy_opt (currentFileId st)
        \<longrightarrow> snd (saveCurrentId st) = st)"
  by (auto simp: saveFiles_def saveCurrentId_def setItem_def removeItem_def truthy_opt_def
           split: sum.splits option.splits)

theorem failed_save_is_invisible_witness:
  "full (storage (ex_state\<lparr>storage := ex_storage\<lparr>full := True\<rparr>\<rparr>))
   \<and> snd (saveFiles ex_host (ex_state\<lparr>storage := ex_storage\<lparr>full := True\<rparr>\<rparr>))
       = ex_state\<lparr>storage := ex_storage\<lparr>full := True\<rparr>\<rparr>
   \<and> snd (saveCurrentId (ex_state\<lparr>storage := ex_storage\<lparr>full := True\<rparr>\<rparr>))
       = ex_state\<lparr>storage := ex_storage\<lparr>full := True\<rparr>\<rparr>
   \<and> find_file (js ''a'')
         (files (snd (saveFiles ex_host (ex_state\<lparr>storage := ex_storage\<lparr>full := True\<rparr>\<rparr>))))
       = Some (ex_doc ''a'' ''x'')"
  using failed_save_is_invisible
    [of ex_host "ex_state\<lparr>storage := ex_storage\<lparr>full := True\<rparr>\<rparr>" "js ''a''"]
  by (simp add: ex_state_def ex_storage_def truthy_opt_def truthy_def js_def find_file_def
        ex_doc_def)

section \<open>Loading\<close>

lemma loadFiles_normal: "fst (loadFiles h ls) = None"
  by (simp add: loadFiles_def Let_def)

lemma renderFileTree_empty:
  "files st = [] \<Longrightarrow> renderFileTree st = (None, st\<lparr>file_tree_container := NoSavedFiles\<rparr>)"
  by (simp add: renderFileTree_def)

text \<open>
  \<open>files\<close> takes the parsed value as it is. A record that parses to something other than
  an array of file objects is not replaced by the empty list, and the startup code then
  ends in a TypeError: at \<open>files.find\<close> when a current id is stored, in \<open>renderFileTree\<close>
  otherwise.
\<close>

lemma loaded_files_eq:
  "loaded_files (snd (loadFiles h ls))
     = (if unavailable ls then JArray []
        else (case latte_files_v1 ls of
                None \<Rightarrow> JArray []
              | Some raw \<Rightarrow>
                  if raw = [] then JArray []
                  else (case JSON_parse h raw of Inl e \<Rightarrow> JArray [] | Inr v \<Rightarrow> v)))"
  by (simp add: loadFiles_def Let_def getItem_def truthy_def split: option.splits)

lemma loadFiles_assigns_parsed_value:
  "\<not> unavailable ls \<Longrightarrow> latte_files_v1 ls = Some raw \<Longrightarrow> raw \<noteq> [] \<Longrightarrow> JSON_parse h raw = Inr v \<Longrightarrow>
     loaded_files (snd (loadFiles h ls)) = v"
  by (simp add: loadFiles_def Let_def getItem_def truthy_def)

lemma startup_aborts_on_non_array:
  "loaded_files (snd (loadFiles ex_host (ex_storage\<lparr>latte_files_v1 := Some (js ''null'')\<rparr>))) = JNull
   \<and> startup ex_host (ex_state\<lparr>storage := ex_storage\<lparr>latte_files_v1 := Some (js ''null'')\<rparr>\<rparr>)
       = Aborted TypeError
   \<and> startup ex_host (ex_state\<lparr>storage := ex_storage\<lparr>latte_files_v1 := Some (js ''{}'')\<rparr>\<rparr>)
       = Aborted TypeError
   \<and> startup ex_host (ex_state\<lparr>storage := ex_storage\<lparr>latte_files_v1 := Some (js ''[null]'')\<rparr>\<rparr>)
       = Aborted TypeError
   \<and> startup ex_host
        (ex_state\<lparr>storage := ex_storage\<lparr>latte_files_v1 := Some (js ''[null]''),
                                         latte_current_v1 := Some (js ''a'')\<rparr>\<rparr>)
       = Aborted TypeError"
  by (simp add: startup_def loadFiles_def Let_def getItem_def startup_ill_typed_def as_files_def
        as_file_def has_id_def ex_state_def ex_storage_def ex_host_def truthy_def truthy_opt_def
        js_def)

text \<open>
  C5, as stated, fails: with an unparseable files record and a stored current id,
  \<open>loadFiles\<close> leaves the empty list but keeps the stored current id.
\<close>

theorem loadFiles_keeps_stored_current_id:
  "JSON_parse ex_host (js ''{oops'') = Inl SyntaxError
   \<and> fst (loadFiles ex_host (storage ex_corrupt)) = None
   \<and> loaded_files (snd (loadFiles ex_host (storage ex_corrupt))) = JArray []
   \<and> loaded_currentFileId (snd (loadFiles ex_host (storage ex_corrupt))) \<noteq> None"
  by (simp add: loadFiles_def ex_corrupt_def ex_state_def ex_storage_def ex_host_def getItem_def
        truthy_def truthy_opt_def js_def)

text \<open>
  C5, amended. \<open>loadFiles\<close> never throws, whatever the storage holds, and the current id it
  leaves is the stored one (none when the medium is unavailable or the record is absent or
  empty). When the files record cannot be read, is absent or empty, or does not parse, it
  leaves the empty document list; the startup code then drops the current id, which names
  no document, so that startup ends normally with an empty collection and no current
  document. Nothing is said here of a record that parses to a value other than an array of
  file objects.
\<close>

theorem corrupted_blob_is_first_run:
  "fst (loadFiles h (storage st)) = None
   \<and> loaded_currentFileId (snd (loadFiles h (storage st)))
       = (if unavailable (storage st) then None
          else if truthy_opt (latte_current_v1 (storage st)) then latte_current_v1 (storage st)
          else None)
   \<and> (unavailable (storage st)
        \<or> (\<forall>raw. latte_files_v1 (storage st) = Some raw \<and> raw \<noteq> []
               \<longrightarrow> (\<exists>e. JSON_parse h raw = Inl e))
       \<longrightarrow> loaded_files (snd (loadFiles h (storage st))) = JArray []
           \<and> startup h st
               = Started (None, st\<lparr>files := [], currentFileId := None,
                                     file_tree_container := NoSavedFiles\<rparr>))"
proof -
  obtain l where n: "loadFiles h (storage st) = (None, l)"
    using loadFiles_normal [of h "storage st"] by (cases "loadFiles h (storage st)") simp
  have c: "loaded_currentFileId l
       = (if unavailable (storage st) then None
          else if truthy_opt (latte_current_v1 (storage st)) then latte_current_v1 (storage st)
          else None)"
    using n by (auto simp: loadFiles_def Let_def getItem_def)
  have "loaded_files l = JArray []
           \<and> startup h st
               = Started (None, st\<lparr>files := [], currentFileId := None,
                                     file_tree_container := NoSavedFiles\<rparr>)"
    if bad: "unavailable (storage st)
        \<or> (\<forall>raw. latte_files_v1 (storage st) = Some raw \<and> raw \<noteq> []
               \<longrightarrow> (\<exists>e. JSON_parse h raw = Inl e))"
  proof -
    have "loaded_files (snd (loadFiles h (storage st))) = JArray []"
      using bad by (auto simp: loaded_files_eq split: option.splits)
    then have f: "loaded_files l = JArray []"
      by (simp add: n)
    have e: "loaded_currentFileId l \<noteq> Some []"
      by (auto simp: c truthy_opt_def truthy_def)
    have "startup h st
            = Started (None, st\<lparr>files := [], currentFileId := None,
                                  file_tree_container := NoSavedFiles\<rparr>)"
    proof (cases "loaded_currentFileId l")
      case None
      then show ?thesis
        using f by (simp add: startup_def n as_files_def Let_def renderFileTree_empty)
    next
      case (Some c0)
      with e have "truthy c0" by (simp add: truthy_def)
      with Some show ?thesis
        using f
        by (simp add: startup_def n as_files_def Let_def renderFileTree_empty find_file_def)
    qed
    with f show ?thesis by simp
  qed
  with c n show ?thesis by simp
qed

theorem corrupted_blob_is_first_run_witness:
  "latte_files_v1 (storage ex_corrupt) = Some (js ''{oops'')
   \<and> JSON_parse ex_host (js ''{oops'') = Inl SyntaxError
   \<and> loaded_files (snd (loadFiles ex_host (storage ex_corrupt))) = JArray []
   \<and> loaded_currentFileId (snd (loadFiles ex_host (storage ex_corrupt))) = Some (js ''a'')
   \<and> startup ex_host ex_corrupt = Started (None, ex_corrupt)"
  using corrupted_blob_is_first_run [of ex_host ex_corrupt]
  by (simp add: ex_corrupt_def ex_state_def ex_storage_def ex_host_def truthy_def truthy_opt_def
        js_def)

section \<open>Opening a document that does not exist\<close>

lemma ids_set_content: "map doc_id (set_content c v fs) = map doc_id fs"
  by (induction fs) auto

lemma find_file_set_content:
  "find_file j (set_content c v fs)
     = (if j = c then map_option (\<lambda>f. f\<lparr>content := v\<rparr>) (find_file c fs) else find_file j fs)"
  by (induction fs) (auto simp: find_file_def)

lemma save_current_first_normal: "fst (save_current_first h st) = None"
  by (simp add: save_current_first_def saveFiles_normal split: option.splits)

lemma saveFiles_fields:
  "files (snd (saveFiles h st)) = files st"
  "currentFileId (snd (saveFiles h st)) = currentFileId st"
  "view_doc (snd (saveFiles h st)) = view_doc st"
  "renderTimer (snd (saveFiles h st)) = renderTimer st"
  "autoSaveTimer (snd (saveFiles h st)) = autoSaveTimer st"
  "in_flight (snd (saveFiles h st)) = in_flight st"
  "frame_srcdoc (snd (saveFiles h st)) = frame_srcdoc st"
  "errorBox_text (snd (saveFiles h st)) = errorBox_text st"
  "errorBox_hidden (snd (saveFiles h st)) = errorBox_hidden st"
  "file_tree_container (snd (saveFiles h st)) = file_tree_container st"
  "clock (snd (saveFiles h st)) = clock st"
  by (simp_all add: saveFiles_def split: sum.splits)

lemma save_current_first_files:
  "files (snd (save_current_first h st))
     = (case currentFileId st of
          None \<Rightarrow> files st
        | Some c \<Rightarrow> if truthy c then set_content c (view_doc st) (files st) else files st)"
proof (cases "currentFileId st")
  case None
  then show ?thesis by (simp add: save_current_first_def)
next
  case (Some c)
  have "find_file c fs = None \<Longrightarrow> set_content c v fs = fs" for fs v
    by (induction fs) (auto simp: find_file_def split: if_splits)
  then show ?thesis using Some
    by (auto simp: save_current_first_def saveFiles_fields split: option.splits)
qed


lemma find_file_flushed:
  "find_file j (files (snd (save_current_first h st)))
     = (if currentFileId st = Some j \<and> truthy j
        then map_option (\<lambda>f. f\<lparr>content := view_doc st\<rparr>) (find_file j (files st))
        else find_file j (files st))"
  by (auto simp: save_current_first_files find_file_set_content split: option.splits)





section \<open>Auto-save with no current document\<close>

lemma autoSave_no_current:
  "\<not> truthy_opt (currentFileId st) \<Longrightarrow> autoSave h src st = (None, st)"
  by (simp add: autoSave_def truthy_opt_def split: option.splits)

lemma renderLatex_resume_frame:
  "files (renderLatex_resume h src st) = files st
   \<and> storage (renderLatex_resume h src st) = storage st
   \<and> currentFileId (renderLatex_resume h src st) = currentFileId st
   \<and> view_doc (renderLatex_resume h src st) = view_doc st"
  by (simp add: renderLatex_resume_def split: sum.splits)

lemma step_no_current:
  assumes "\<not> truthy_opt (currentFileId st)"
  shows "files (step h st e) = files st \<and> storage (step h st e) = storage st
     \<and> currentFileId (step h st e) = currentFileId st"
proof (cases e)
  case AutoSaveTimeout
  have "snd (autoSaveTimer_callback h st) = st \<or> snd (autoSaveTimer_callback h st) = st\<lparr>autoSaveTimer := None\<rparr>"
    using assms
    by (auto simp: autoSaveTimer_callback_def autoSave_no_current split: option.splits)
  then show ?thesis using AutoSaveTimeout by auto
next
  case ImportResolved
  then show ?thesis
    by (simp add: import_resolved_def renderLatex_resume_frame split: list.splits)
qed (simp_all add: editor_input_def updateListener_def scheduleRender_def scheduleAutoSave_def
       renderTimer_callback_def renderLatex_def split: option.splits)

text \<open>
  C10. While no document is current (\<open>currentFileId\<close> is \<open>null\<close>, or falsy), \<open>autoSave\<close>
  returns at once, and no sequence of edits, elapsed time, timeouts and compile results
  changes the in-memory collection, the persisted records or the current id.
\<close>

theorem autoSave_without_current_document:
  assumes "\<not> truthy_opt (currentFileId st)"
  shows "autoSave h src st = (None, st)
     \<and> files (run h st evs) = files st
     \<and> storage (run h st evs) = storage st
     \<and> currentFileId (run h st evs) = currentFileId st"
proof -
  have "files (foldl (step h) st evs) = files st \<and> storage (foldl (step h) st evs) = storage st
     \<and> currentFileId (foldl (step h) st evs) = currentFileId st"
    using assms
  proof (induction evs arbitrary: st)
    case Nil
    then show ?case by simp
  next
    case (Cons e evs)
    from step_no_current [OF Cons.prems, of h e]
    have s: "files (step h st e) = files st" "storage (step h st e) = storage st"
      "currentFileId (step h st e) = currentFileId st" by simp_all
    with Cons.prems have "\<not> truthy_opt (currentFileId (step h st e))" by simp
    from Cons.IH [OF this] s show ?case by simp
  qed
  then show ?thesis using assms by (simp add: run_def autoSave_no_current)
qed

theorem autoSave_without_current_document_witness:
  "\<not> truthy_opt (currentFileId (ex_state\<lparr>currentFileId := None\<rparr>))
   \<and> view_doc (run ex_host (ex_state\<lparr>currentFileId := None\<rparr>)
        [EditorInput (js ''hello''), Elapse 1000, AutoSaveTimeout]) = js ''hello''
   \<and> autoSaveTimer (run ex_host (ex_state\<lparr>currentFileId := None\<rparr>)
        [EditorInput (js ''hello''), Elapse 1000, AutoSaveTimeout]) = None
   \<and> files (run ex_host (ex_state\<lparr>currentFileId := None\<rparr>)
        [EditorInput (js ''hello''), Elapse 1000, AutoSaveTimeout])
       = [ex_doc ''a'' ''x'', ex_doc ''b'' ''y'']
   \<and> storage (run ex_host (ex_state\<lparr>currentFileId := None\<rparr>)
        [EditorInput (js ''hello''), Elapse 1000, AutoSaveTimeout]) = ex_storage"
  using autoSave_without_current_document
    [of "ex_state\<lparr>currentFileId := None\<rparr>" ex_host "js ''hello''"
        "[EditorInput (js ''hello''), Elapse 1000, AutoSaveTimeout]"]
  by (simp add: run_def editor_input_def updateListener_def scheduleRender_def
        scheduleAutoSave_def autoSaveTimer_callback_def autoSave_def truthy_opt_def
        ex_state_def)


section \<open>A failing compile\<close>

text \<open>
  C8. When the compile of \<open>src\<close> raises \<open>err\<close>, the error box shows \<open>err.message\<close>, or the
  string form of \<open>err\<close> when the message is absent or empty, and is made visible; the
  collection, the persisted records, the current id and the editor are untouched. A later
  render that succeeds clears and hides the error box and replaces the frame's document.
\<close>

theorem compile_failure_is_reported:
  assumes "latex_compile h src = Inl err"
  shows "errorBox_text (renderLatex_resume h src st)
           = (case message err of
                None \<Rightarrow> string_form err
              | Some m \<Rightarrow> if m = [] then string_form err else m)
     \<and> \<not> errorBox_hidden (renderLatex_resume h src st)
     \<and> files (renderLatex_resume h src st) = files st
     \<and> storage (renderLatex_resume h src st) = storage st
     \<and> currentFileId (renderLatex_resume h src st) = currentFileId st
     \<and> view_doc (renderLatex_resume h src st) = view_doc st
     \<and> (\<forall>src' d. latex_compile h src' = Inr d \<longrightarrow>
           errorBox_text (renderLatex_resume h src' (renderLatex_resume h src st)) = []
           \<and> errorBox_hidden (renderLatex_resume h src' (renderLatex_resume h src st))
           \<and> frame_srcdoc (renderLatex_resume h src' (renderLatex_resume h src st))
               = js ''<!DOCTYPE html>''
                 @ outerHTML h (d\<lparr>head := head d @ [katexCSS, latexCSS, Style style_textContent]\<rparr>))"
  using assms
  by (auto simp: renderLatex_resume_def error_text_def or_else_def truthy_def
           split: option.splits)

theorem compile_failure_is_reported_witness:
  "latex_compile ex_host [] = Inl \<lparr>message = Some (js ''empty input''), string_form = js ''Error: empty input''\<rparr>
   \<and> errorBox_text (renderLatex_resume ex_host [] ex_state) = js ''empty input''
   \<and> \<not> errorBox_hidden (renderLatex_resume ex_host [] ex_state)
   \<and> errorBox_text (renderLatex_resume ex_host (js ''x'') (renderLatex_resume ex_host [] ex_state)) = []
   \<and> frame_srcdoc (renderLatex_resume ex_host (js ''x'') (renderLatex_resume ex_host [] ex_state))
       = js ''<!DOCTYPE html><html>x</html>''"
  using compile_failure_is_reported
    [of ex_host "[]" "\<lparr>message = Some (js ''empty input''), string_form = js ''Error: empty input''\<rparr>" ex_state]
  by (simp add: ex_host_def renderLatex_resume_def error_text_def or_else_def truthy_def js_def)

section \<open>Switching away from a document and back\<close>


lemma normalise_newlines_same: "13 \<notin> set s \<Longrightarrow> normalise_newlines s = s"
  by (induction s rule: normalise_newlines.induct) auto


lemma find_file_id: "find_file i fs = Some f \<Longrightarrow> doc_id f = i"
  by (induction fs) (auto simp: find_file_def split: if_splits)

lemma renderFileTree_fields:
  "files (snd (renderFileTree st)) = files st"
  "currentFileId (snd (renderFileTree st)) = currentFileId st"
  "storage (snd (renderFileTree st)) = storage st"
  "view_doc (snd (renderFileTree st)) = view_doc st"
  "renderTimer (snd (renderFileTree st)) = renderTimer st"
  "autoSaveTimer (snd (renderFileTree st)) = autoSaveTimer st"
  "in_flight (snd (renderFileTree st)) = in_flight st"
  "frame_srcdoc (snd (renderFileTree st)) = frame_srcdoc st"
  by (simp_all add: renderFileTree_def split: sum.splits prod.splits)

lemma dispatch_replace_fields:
  "files (dispatch_replace c st) = files st"
  "currentFileId (dispatch_replace c st) = currentFileId st"
  "storage (dispatch_replace c st) = storage st"
  "view_doc (dispatch_replace c st) = normalise_newlines c"
  "in_flight (dispatch_replace c st) = in_flight st"
  "frame_srcdoc (dispatch_replace c st) = frame_srcdoc st"
  by (simp_all add: dispatch_replace_def updateListener_def scheduleRender_def
        scheduleAutoSave_def)

lemma saveCurrentId_fields:
  "files (snd (saveCurrentId st)) = files st"
  "currentFileId (snd (saveCurrentId st)) = currentFileId st"
  "view_doc (snd (saveCurrentId st)) = view_doc st"
  "in_flight (snd (saveCurrentId st)) = in_flight st"
  "frame_srcdoc (snd (saveCurrentId st)) = frame_srcdoc st"
  "latte_files_v1 (storage (snd (saveCurrentId st))) = latte_files_v1 (storage st)"
  "unavailable (storage (snd (saveCurrentId st))) = unavailable (storage st)"
  "full (storage (snd (saveCurrentId st))) = full (storage st)"
  by (auto simp: saveCurrentId_def setItem_def removeItem_def split: sum.splits option.splits if_splits)

lemma saveFiles_storage:
  "unavailable (storage (snd (saveFiles h st))) = unavailable (storage st)"
  "full (storage (snd (saveFiles h st))) = full (storage st)"
  "\<not> unavailable (storage st) \<Longrightarrow> \<not> full (storage st) \<Longrightarrow>
     latte_files_v1 (storage (snd (saveFiles h st))) = Some (JSON_stringify h (files st))"
  by (auto simp: saveFiles_def setItem_def split: sum.splits)

lemma save_current_first_storage:
  "unavailable (storage (snd (save_current_first h st))) = unavailable (storage st)"
  "full (storage (snd (save_current_first h st))) = full (storage st)"
  by (simp_all add: save_current_first_def saveFiles_storage split: option.splits)


lemma openFile_found:
  assumes "find_file i (files (snd (save_current_first h st))) = Some file"
  shows "files (snd (openFile h i st)) = files (snd (save_current_first h st))"
    and "currentFileId (snd (openFile h i st)) = Some i"
    and "view_doc (snd (openFile h i st)) = normalise_newlines (content file)"
    and "latte_files_v1 (storage (snd (openFile h i st)))
           = latte_files_v1 (storage (snd (save_current_first h st)))"
    and "unavailable (storage (snd (openFile h i st))) = unavailable (storage st)"
    and "full (storage (snd (openFile h i st))) = full (storage st)"
proof -
  obtain st1 where s: "save_current_first h st = (None, st1)"
    using save_current_first_normal [of h st] by (cases "save_current_first h st") simp
  obtain st2 where c: "saveCurrentId (st1\<lparr>currentFileId := Some (doc_id file)\<rparr>) = (None, st2)"
    using saveCurrentId_normal [of "st1\<lparr>currentFileId := Some (doc_id file)\<rparr>"]
    by (cases "saveCurrentId (st1\<lparr>currentFileId := Some (doc_id file)\<rparr>)") simp
  from assms s have f: "find_file i (files st1) = Some file" by simp
  have o: "openFile h i st = renderFileTree (dispatch_replace (content file) st2)"
    by (simp add: openFile_def s f c andThen_def)
  have st2: "files st2 = files st1" "currentFileId st2 = Some (doc_id file)"
    "latte_files_v1 (storage st2) = latte_files_v1 (storage st1)"
    "unavailable (storage st2) = unavailable (storage st1)"
    "full (storage st2) = full (storage st1)"
    using saveCurrentId_fields [of "st1\<lparr>currentFileId := Some (doc_id file)\<rparr>"] c by simp_all
  have u: "unavailable (storage st1) = unavailable (storage st)" "full (storage st1) = full (storage st)"
    using save_current_first_storage [of h st] s by simp_all
  show "files (snd (openFile h i st)) = files (snd (save_current_first h st))"
    by (simp add: o renderFileTree_fields dispatch_replace_fields st2 s)
  show "currentFileId (snd (openFile h i st)) = Some i"
    by (simp add: o renderFileTree_fields dispatch_replace_fields st2 find_file_id [OF f])
  show "view_doc (snd (openFile h i st)) = normalise_newlines (content file)"
    by (simp add: o renderFileTree_fields dispatch_replace_fields)
  show "latte_files_v1 (storage (snd (openFile h i st)))
           = latte_files_v1 (storage (snd (save_current_first h st)))"
    by (simp add: o renderFileTree_fields dispatch_replace_fields st2 s)
  show "unavailable (storage (snd (openFile h i st))) = unavailable (storage st)"
    by (simp add: o renderFileTree_fields dispatch_replace_fields st2 u)
  show "full (storage (snd (openFile h i st))) = full (storage st)"
    by (simp add: o renderFileTree_fields dispatch_replace_fields st2 u)
qed






section \<open>Creating a document\<close>

lemma find_file_append:
  "find_file i (fs @ [f])
     = (case find_file i fs of Some x \<Rightarrow> Some x | None \<Rightarrow> if doc_id f = i then Some f else None)"
  by (induction fs) (auto simp: find_file_def)

lemma find_file_None_iff: "find_file i fs = None \<longleftrightarrow> i \<notin> doc_id ` set fs"
  by (induction fs) (auto simp: find_file_def)

lemma TEMPLATES_truthy: "TEMPLATES k = Some c \<Longrightarrow> truthy c"
  by (auto simp: TEMPLATES_def truthy_def TEMPLATES_blank_def DEFAULT_DOC_def TEMPLATES_math_def
        TEMPLATES_letter_def split: if_splits)

lemma TEMPLATES_no_CR:
  "13 \<notin> set (case TEMPLATES k of Some c \<Rightarrow> c | None \<Rightarrow> TEMPLATES_blank)"
  by (simp add: TEMPLATES_def TEMPLATES_blank_def DEFAULT_DOC_def TEMPLATES_math_def
        TEMPLATES_letter_def js_def)

lemma template_content_resolved:
  "k \<notin> set Object_prototype_keys \<Longrightarrow>
     template_content k = Some (case TEMPLATES k of Some c \<Rightarrow> c | None \<Rightarrow> TEMPLATES_blank)"
  by (auto simp: template_content_def TEMPLATES_truthy split: option.splits)

lemma andThen_renderFileTree_fields:
  "files (snd (andThen r renderFileTree)) = files (snd r)"
  "currentFileId (snd (andThen r renderFileTree)) = currentFileId (snd r)"
  "view_doc (snd (andThen r renderFileTree)) = view_doc (snd r)"
  by (cases r; cases "fst r"; simp add: andThen_def renderFileTree_fields)+

text \<open>
  C7, as stated, fails: the stored name is not the requested one when that has white space
  around it (it is trimmed) or is blank (it becomes \<open>Untitled\<close>).
\<close>

theorem createFile_trims_the_name:
  "map_option (\<lambda>r. map_option name (find_file (js ''n1'') (files (snd r))))
     (createFile ex_host (js '' draft '') (Some (js ''Notes'')) (js ''blank'') (js ''n1'') ex_state)
   = Some (Some (js ''draft''))
   \<and> js ''draft'' \<noteq> js '' draft ''
   \<and> map_option (\<lambda>r. map_option name (find_file (js ''n2'') (files (snd r))))
     (createFile ex_host [] (Some (js ''Notes'')) (js ''blank'') (js ''n2'') ex_state)
   = Some (Some (js ''Untitled''))"
  by (simp add: createFile_def template_content_def TEMPLATES_def Object_prototype_keys_def
        openFile_def save_current_first_def saveFiles_def saveCurrentId_def setItem_def
        andThen_def find_file_def dispatch_replace_def updateListener_def scheduleRender_def
        scheduleAutoSave_def renderFileTree_def or_else_def trim_def is_white_space_def
        ex_state_def ex_doc_def ex_storage_def ex_host_def truthy_def js_def Let_def
        TEMPLATES_blank_def)

text \<open>
  C7, amended. For a template key that is not the name of an inherited member, and a
  generated id that is fresh (no document has it and it is not the current id),
  \<open>createFile\<close> followed by \<open>find\<close> of the new id yields the document whose name is the
  requested name trimmed, or \<open>Untitled\<close> when that is empty, whose folder is the requested
  folder trimmed (empty when absent), and whose content is the registry entry for the key,
  or the blank template for an unknown key. The document is appended to the collection,
  becomes current, and its content is in the editor.
\<close>

theorem createFile_then_find:
  assumes k: "templateKey \<notin> set Object_prototype_keys"
    and fresh: "newId \<notin> doc_id ` set (files st)"
    and cur: "currentFileId st \<noteq> Some newId"
  shows "\<exists>r. createFile h nm fld templateKey newId st = Some r
     \<and> find_file newId (files (snd r))
         = Some \<lparr>doc_id = newId,
                 name = (if trim nm = [] then js ''Untitled'' else trim nm),
                 folder = Some (trim (case fld of None \<Rightarrow> [] | Some f \<Rightarrow> f)),
                 content = (case TEMPLATES templateKey of
                              Some c \<Rightarrow> c | None \<Rightarrow> TEMPLATES_blank)\<rparr>
     \<and> map doc_id (files (snd r)) = map doc_id (files st) @ [newId]
     \<and> currentFileId (snd r) = Some newId
     \<and> view_doc (snd r)
         = (case TEMPLATES templateKey of Some c \<Rightarrow> c | None \<Rightarrow> TEMPLATES_blank)"
proof -
  let ?c = "case TEMPLATES templateKey of Some c \<Rightarrow> c | None \<Rightarrow> TEMPLATES_blank"
  let ?file = "\<lparr>doc_id = newId,
                 name = (if trim nm = [] then js ''Untitled'' else trim nm),
                 folder = Some (trim (case fld of None \<Rightarrow> [] | Some f \<Rightarrow> f)),
                 content = ?c\<rparr>"
  let ?st0 = "st\<lparr>files := files st @ [?file]\<rparr>"
  obtain st1 where s1: "saveFiles h ?st0 = (None, st1)"
    using saveFiles_normal [of h ?st0] by (cases "saveFiles h ?st0") simp
  have file_eq: "\<lparr>doc_id = newId, name = or_else (Some (trim nm)) (js ''Untitled''),
                  folder = Some (trim (or_else fld [])), content = ?c\<rparr> = ?file"
    by (auto simp: or_else_def truthy_def split: option.splits)
  have cf: "createFile h nm fld templateKey newId st
        = Some (andThen (openFile h newId st1) renderFileTree)"
    using s1 by (simp add: createFile_def template_content_resolved [OF k] Let_def file_eq andThen_def)
  have f1: "files st1 = files st @ [?file]" and c1: "currentFileId st1 = currentFileId st"
    using saveFiles_fields(1,2) [of h ?st0] s1 by simp_all
  have "find_file newId (files st) = None"
    using fresh by (simp add: find_file_None_iff)
  then have n1: "find_file newId (files st1) = Some ?file"
    by (simp add: f1 find_file_append)
  have fl: "find_file newId (files (snd (save_current_first h st1))) = Some ?file"
    using n1 c1 cur by (simp add: find_file_flushed)
  note o = openFile_found [OF fl]
  have ids: "map doc_id (files (snd (save_current_first h st1))) = map doc_id (files st) @ [newId]"
    by (simp add: save_current_first_files ids_set_content f1 split: option.splits)
  show ?thesis
    using o(1,2,3) fl ids
    by (simp add: cf andThen_renderFileTree_fields normalise_newlines_same [OF TEMPLATES_no_CR])
qed

theorem createFile_then_find_witness:
  "js ''blank'' \<notin> set Object_prototype_keys
   \<and> js ''n1'' \<notin> doc_id ` set (files ex_state)
   \<and> currentFileId ex_state \<noteq> Some (js ''n1'')
   \<and> map_option (\<lambda>r. find_file (js ''n1'') (files (snd r)))
        (createFile ex_host (js '' draft '') (Some (js ''Notes'')) (js ''blank'') (js ''n1'') ex_state)
       = Some (Some \<lparr>doc_id = js ''n1'', name = js ''draft'', folder = Some (js ''Notes''),
                     content = TEMPLATES_blank\<rparr>)"
  using createFile_then_find [of "js ''blank''" "js ''n1''" ex_state ex_host "js '' draft ''" "Some (js ''Notes'')"]
  by (auto simp: Object_prototype_keys_def TEMPLATES_def trim_def is_white_space_def
        ex_state_def ex_doc_def js_def)

section \<open>A compile that lands late\<close>

text \<open>
  C3, as stated, fails: the render of document \<open>a\<close> lands after the session has switched
  to \<open>b\<close>, and its result is written into the frame all the same.
\<close>

theorem stale_compile_result_is_applied:
  "in_flight ex_switched = [js ''x2'']
   \<and> currentFileId ex_switched = Some (js ''b'')
   \<and> view_doc ex_switched = js ''y''
   \<and> frame_srcdoc ex_switched = []
   \<and> frame_srcdoc (import_resolved ex_host ex_switched) = js ''<!DOCTYPE html><html>x2</html>''
   \<and> currentFileId (import_resolved ex_host ex_switched) = Some (js ''b'')"
  by (simp add: ex_switched_def run_def editor_input_def renderTimer_callback_def renderLatex_def
        import_resolved_def renderLatex_resume_def
        openFile_def save_current_first_def saveFiles_def saveCurrentId_def setItem_def
        andThen_def find_file_def dispatch_replace_def updateListener_def scheduleRender_def
        scheduleAutoSave_def renderFileTree_def or_else_def trim_def
        ex_state_def ex_doc_def ex_storage_def ex_host_def truthy_def js_def)

text \<open>
  C3, amended. When the oldest suspended compile resumes, its result is applied with no
  check of the session: on success the frame takes the document compiled from the source
  the render was called with and the error box is cleared, on failure the error box takes
  the error text and the frame stays; the outcome is the same whatever the collection,
  the current id and the editor hold by then. Applying it leaves the collection, the
  current id, the persisted records and the editor untouched.
\<close>

theorem compile_result_applied_unguarded:
  assumes "in_flight st = src # rest"
  shows "(\<forall>d. latex_compile h src = Inr d \<longrightarrow>
            frame_srcdoc (import_resolved h st)
              = js ''<!DOCTYPE html>''
                @ outerHTML h (d\<lparr>head := head d @ [katexCSS, latexCSS, Style style_textContent]\<rparr>)
            \<and> errorBox_text (import_resolved h st) = []
            \<and> errorBox_hidden (import_resolved h st))
     \<and> (\<forall>err. latex_compile h src = Inl err \<longrightarrow>
            errorBox_text (import_resolved h st) = error_text err
            \<and> \<not> errorBox_hidden (import_resolved h st)
            \<and> frame_srcdoc (import_resolved h st) = frame_srcdoc st)
     \<and> frame_srcdoc (import_resolved h (st\<lparr>files := fs, currentFileId := c, view_doc := v\<rparr>))
         = frame_srcdoc (import_resolved h st)
     \<and> errorBox_text (import_resolved h (st\<lparr>files := fs, currentFileId := c, view_doc := v\<rparr>))
         = errorBox_text (import_resolved h st)
     \<and> in_flight (import_resolved h st) = rest
     \<and> files (import_resolved h st) = files st
     \<and> currentFileId (import_resolved h st) = currentFileId st
     \<and> storage (import_resolved h st) = storage st
     \<and> view_doc (import_resolved h st) = view_doc st"
  using assms
  by (auto simp: import_resolved_def renderLatex_resume_def split: sum.splits)

theorem compile_result_applied_unguarded_witness:
  "in_flight ex_switched = js ''x2'' # []
   \<and> latex_compile ex_host (js ''x2'') = Inr \<lparr>head = [], body = js ''x2''\<rparr>
   \<and> frame_srcdoc (import_resolved ex_host ex_switched) = js ''<!DOCTYPE html><html>x2</html>''
   \<and> in_flight (import_resolved ex_host ex_switched) = []"
  using compile_result_applied_unguarded [of ex_switched "js ''x2''" "[]" ex_host]
  by (simp add: ex_switched_def run_def editor_input_def renderTimer_callback_def renderLatex_def
        import_resolved_def renderLatex_resume_def
        openFile_def save_current_first_def saveFiles_def saveCurrentId_def setItem_def
        andThen_def find_file_def dispatch_replace_def updateListener_def scheduleRender_def
        scheduleAutoSave_def renderFileTree_def or_else_def trim_def
        ex_state_def ex_doc_def ex_storage_def ex_host_def truthy_def js_def)


section \<open>Debounce\<close>

lemma debounce_inv_run:
  "debounce_inv st g s base \<Longrightarrow> burst g es \<Longrightarrow>
     debounce_inv (foldl pipeline_step st es) (quiet g es) (last_call s es) base"
proof (induction es arbitrary: st g s)
  case Nil
  then show ?case by simp
next
  case (Cons e es)
  show ?case
  proof (cases e)
    case (Call src)
    with Cons.prems have "g < 450" "burst 0 es" by simp_all
    moreover have "debounce_inv (scheduleRender src st) 0 src base"
      using Cons.prems(1) \<open>g < 450\<close>
      by (auto simp: debounce_inv_def scheduleRender_def split: option.splits)
    ultimately show ?thesis using Cons.IH [of "scheduleRender src st" 0 src] Call by simp
  next
    case (Pass n)
    have "debounce_inv (st\<lparr>clock := clock st + n\<rparr>) (g + n) s base"
      using Cons.prems(1) by (auto simp: debounce_inv_def split: option.splits)
    then show ?thesis using Cons.IH [of "st\<lparr>clock := clock st + n\<rparr>" "g + n" s] Cons.prems(2) Pass
      by simp
  next
    case Timeout
    from Cons.prems(1) consider
      (pending) due where "renderTimer st = Some (due, s)" "due + g = clock st + 450"
        "in_flight st = base"
      | (fired) "renderTimer st = None" "in_flight st = base @ [s]" "450 \<le> g"
      by (auto simp: debounce_inv_def split: option.splits)
    then have "debounce_inv (renderTimer_callback st) g s base"
    proof cases
      case pending
      show ?thesis
      proof (cases "due \<le> clock st")
        case True
        with pending have "450 \<le> g" by arith
        with pending True show ?thesis
          by (simp add: debounce_inv_def renderTimer_callback_def renderLatex_def)
      next
        case False
        with pending show ?thesis
          by (simp add: debounce_inv_def renderTimer_callback_def)
      qed
    next
      case fired
      then show ?thesis by (simp add: debounce_inv_def renderTimer_callback_def)
    qed
    then show ?thesis using Cons.IH [of "renderTimer_callback st" g s] Cons.prems(2) Timeout
      by simp
  qed
qed

text \<open>
  C2. After \<open>scheduleRender(s1)\<close> and any further calls that each come less than 450 ms
  after the one before, with time passing and the timeout callback run at any moments in
  between: the only source \<open>renderLatex\<close> has been called with is that of the last call, at
  most once; it has been called only if 450 ms have passed since the last call; and once
  450 ms have passed, the callback calls it with the last source.
\<close>

theorem only_last_source_is_compiled:
  assumes "burst 0 es"
  shows "(in_flight (foldl pipeline_step (scheduleRender s1 st) es) = in_flight st
          \<or> in_flight (foldl pipeline_step (scheduleRender s1 st) es)
              = in_flight st @ [last_call s1 es])
     \<and> (in_flight (foldl pipeline_step (scheduleRender s1 st) es) \<noteq> in_flight st
          \<longrightarrow> 450 \<le> quiet 0 es)
     \<and> (450 \<le> quiet 0 es
          \<longrightarrow> in_flight (renderTimer_callback (foldl pipeline_step (scheduleRender s1 st) es))
               = in_flight st @ [last_call s1 es])"
proof -
  have "debounce_inv (scheduleRender s1 st) 0 s1 (in_flight st)"
    by (simp add: debounce_inv_def scheduleRender_def)
  from debounce_inv_run [OF this assms]
  show ?thesis
    by (auto simp: debounce_inv_def renderTimer_callback_def renderLatex_def
          split: option.splits)
qed

theorem only_last_source_is_compiled_witness:
  "burst 0 [Pass 449, Timeout, Call (js ''ab''), Pass 300, Call (js ''abc''), Pass 449, Timeout, Pass 1]
   \<and> last_call (js ''a'') [Pass 449, Timeout, Call (js ''ab''), Pass 300, Call (js ''abc''), Pass 449, Timeout, Pass 1] = js ''abc''
   \<and> quiet 0 [Pass 449, Timeout, Call (js ''ab''), Pass 300, Call (js ''abc''), Pass 449, Timeout, Pass 1] = 450
   \<and> in_flight (foldl pipeline_step (scheduleRender (js ''a'') ex_state)
        [Pass 449, Timeout, Call (js ''ab''), Pass 300, Call (js ''abc''), Pass 449, Timeout, Pass 1]) = []
   \<and> in_flight (renderTimer_callback (foldl pipeline_step (scheduleRender (js ''a'') ex_state)
        [Pass 449, Timeout, Call (js ''ab''), Pass 300, Call (js ''abc''), Pass 449, Timeout, Pass 1]))
       = [js ''abc'']"
  using only_last_source_is_compiled
    [of "[Pass 449, Timeout, Call (js ''ab''), Pass 300, Call (js ''abc''), Pass 449, Timeout, Pass 1]"
        "js ''a''" ex_state]
  by (simp add: scheduleRender_def renderTimer_callback_def renderLatex_def ex_state_def)

section \<open>Grouping for the file tree\<close>

lemma group_files_step:
  "group_files (file # rest) (root, folders) =
     (if folder_key file = [] then group_files rest (root @ [file], folders)
      else (case map_of folders (folder_key file) of
              Some arr \<Rightarrow>
                group_files rest (root, AList.update (folder_key file) (arr @ [file]) folders)
            | None \<Rightarrow>
                if folder_key file \<in> set Object_prototype_keys then Inl TypeError
                else group_files rest (root, AList.update (folder_key file) [file] folders)))"
  unfolding folder_key_def by (simp add: Let_def truthy_def)

lemma group_files_acc:
  assumes "\<forall>f\<in>set fs. folder_key f \<notin> set Object_prototype_keys"
    and "map_of folders [] = None"
  shows "\<exists>folders'.
     group_files fs (root, folders) = Inr (root @ filter (\<lambda>f. folder_key f = []) fs, folders')
     \<and> (\<forall>k. map_of folders' k
            = (case map_of folders k of
                 Some arr \<Rightarrow> Some (arr @ filter (\<lambda>f. folder_key f = k) fs)
               | None \<Rightarrow> if filter (\<lambda>f. folder_key f = k) fs = [] \<or> k = [] then None
                         else Some (filter (\<lambda>f. folder_key f = k) fs)))
     \<and> (distinct (map fst folders) \<longrightarrow> distinct (map fst folders'))"
  using assms
proof (induction fs arbitrary: root folders)
  case Nil
  then show ?case by (auto split: option.splits)
next
  case (Cons d0 rest)
  from Cons.prems have ok: "\<forall>f\<in>set rest. folder_key f \<notin> set Object_prototype_keys"
    and nk: "folder_key d0 \<notin> set Object_prototype_keys" by simp_all
  show ?case
  proof (cases "folder_key d0 = []")
    case True
    from Cons.IH [OF ok Cons.prems(2), of "root @ [d0]"]
    obtain folders' where
      g: "group_files rest (root @ [d0], folders)
            = Inr ((root @ [d0]) @ filter (\<lambda>f. folder_key f = []) rest, folders')"
      and m: "\<forall>k. map_of folders' k
            = (case map_of folders k of
                 Some arr \<Rightarrow> Some (arr @ filter (\<lambda>f. folder_key f = k) rest)
               | None \<Rightarrow> if filter (\<lambda>f. folder_key f = k) rest = [] \<or> k = [] then None
                         else Some (filter (\<lambda>f. folder_key f = k) rest))"
      and d: "distinct (map fst folders) \<longrightarrow> distinct (map fst folders')"
      by blast
    have "\<forall>k. map_of folders' k
            = (case map_of folders k of
                 Some arr \<Rightarrow> Some (arr @ filter (\<lambda>f. folder_key f = k) (d0 # rest))
               | None \<Rightarrow> if filter (\<lambda>f. folder_key f = k) (d0 # rest) = [] \<or> k = [] then None
                         else Some (filter (\<lambda>f. folder_key f = k) (d0 # rest)))"
    proof
      fix k
      show "map_of folders' k
            = (case map_of folders k of
                 Some arr \<Rightarrow> Some (arr @ filter (\<lambda>f. folder_key f = k) (d0 # rest))
               | None \<Rightarrow> if filter (\<lambda>f. folder_key f = k) (d0 # rest) = [] \<or> k = [] then None
                         else Some (filter (\<lambda>f. folder_key f = k) (d0 # rest)))"
        using m [rule_format, of k] True Cons.prems(2)
        by (cases "k = []") (auto split: option.splits)
    qed
    moreover have "group_files (d0 # rest) (root, folders) = group_files rest (root @ [d0], folders)"
      using True by (subst group_files_step) simp
    ultimately show ?thesis using g d True
      by (intro exI [of _ folders']) (simp del: group_files.simps)
  next
    case False
    let ?k = "folder_key d0"
    let ?new = "case map_of folders ?k of Some arr \<Rightarrow> arr @ [d0] | None \<Rightarrow> [d0]"
    let ?fo = "AList.update ?k ?new folders"
    have step: "group_files (d0 # rest) (root, folders) = group_files rest (root, ?fo)"
      using False nk by (subst group_files_step) (simp split: option.splits)
    have e: "map_of ?fo [] = None"
      using False Cons.prems(2) by (simp add: update_conv')
    from Cons.IH [OF ok e, of root]
    obtain folders' where
      g: "group_files rest (root, ?fo) = Inr (root @ filter (\<lambda>f. folder_key f = []) rest, folders')"
      and m: "\<forall>k. map_of folders' k
            = (case map_of ?fo k of
                 Some arr \<Rightarrow> Some (arr @ filter (\<lambda>f. folder_key f = k) rest)
               | None \<Rightarrow> if filter (\<lambda>f. folder_key f = k) rest = [] \<or> k = [] then None
                         else Some (filter (\<lambda>f. folder_key f = k) rest))"
      and d: "distinct (map fst ?fo) \<longrightarrow> distinct (map fst folders')"
      by blast
    have "\<forall>k. map_of folders' k
            = (case map_of folders k of
                 Some arr \<Rightarrow> Some (arr @ filter (\<lambda>f. folder_key f = k) (d0 # rest))
               | None \<Rightarrow> if filter (\<lambda>f. folder_key f = k) (d0 # rest) = [] \<or> k = [] then None
                         else Some (filter (\<lambda>f. folder_key f = k) (d0 # rest)))"
    proof
      fix k
      show "map_of folders' k
            = (case map_of folders k of
                 Some arr \<Rightarrow> Some (arr @ filter (\<lambda>f. folder_key f = k) (d0 # rest))
               | None \<Rightarrow> if filter (\<lambda>f. folder_key f = k) (d0 # rest) = [] \<or> k = [] then None
                         else Some (filter (\<lambda>f. folder_key f = k) (d0 # rest)))"
        using m [rule_format, of k] False
        by (cases "k = ?k") (auto simp: update_conv' split: option.splits)
    qed
    moreover have "distinct (map fst folders) \<longrightarrow> distinct (map fst folders')"
      using d by (simp add: distinct_update)
    ultimately show ?thesis using g False
      by (intro exI [of _ folders']) (simp del: group_files.simps add: step)
  qed
qed

text \<open>
  For a collection in which no trimmed folder name is the name of an inherited member,
  the grouping loop succeeds: the root list is the files with a blank folder, the folder
  names are the non-blank trimmed folder values, sorted and without repetition, and the
  bucket of a name is the files with that trimmed folder value; every list keeps the
  order of the collection.
\<close>

lemma grouping_of_file_tree:
  assumes "\<forall>f\<in>set fs. folder_key f \<notin> set Object_prototype_keys"
  shows "\<exists>folders.
     group_files fs ([], []) = Inr (filter (\<lambda>f. folder_key f = []) fs, folders)
     \<and> set (sorted_keys folders) = folder_key ` set fs - {[]}
     \<and> sorted (sorted_keys folders) \<and> distinct (sorted_keys folders)
     \<and> (\<forall>k\<in>set (sorted_keys folders). own folders k = filter (\<lambda>f. folder_key f = k) fs)"
proof -
  from group_files_acc [OF assms, of "[]" "[]"]
  obtain folders where
    g: "group_files fs ([], []) = Inr (filter (\<lambda>f. folder_key f = []) fs, folders)"
    and m: "\<And>k. map_of folders k
            = (if filter (\<lambda>f. folder_key f = k) fs = [] \<or> k = [] then None
               else Some (filter (\<lambda>f. folder_key f = k) fs))"
    and d: "distinct (map fst folders)"
    by auto
  have keys: "fst ` set folders = folder_key ` set fs - {[]}"
  proof -
    have "fst ` set folders = dom (map_of folders)" by (simp add: dom_map_of_conv_image_fst)
    also have "\<dots> = {k. filter (\<lambda>f. folder_key f = k) fs \<noteq> [] \<and> k \<noteq> []}"
      by (auto simp: dom_def m)
    also have "\<dots> = folder_key ` set fs - {[]}"
      by (auto simp: filter_empty_conv)
    finally show ?thesis .
  qed
  have "\<forall>k\<in>set (sorted_keys folders). own folders k = filter (\<lambda>f. folder_key f = k) fs"
    using keys by (auto simp: sorted_keys_def own_def m filter_empty_conv)
  with g keys d show ?thesis by (auto simp: sorted_keys_def)
qed


lemma grouping_example:
  "group_files (files ex_foldered) ([], [])
     = Inr ([files ex_foldered ! 1, files ex_foldered ! 3, files ex_foldered ! 5],
            [(js ''Notes'', [files ex_foldered ! 0, files ex_foldered ! 4]),
             (js ''Alpha'', [files ex_foldered ! 2])])
   \<and> sorted_keys [(js ''Notes'', [files ex_foldered ! 0, files ex_foldered ! 4]),
             (js ''Alpha'', [files ex_foldered ! 2])] = [js ''Alpha'', js ''Notes'']"
  by (simp add: ex_foldered_def ex_state_def or_else_def trim_def is_white_space_def truthy_def
        js_def Object_prototype_keys_def sorted_keys_def Let_def)


text \<open>
  C9 says that every collection is grouped. The code fails on a collection with a file
  whose folder is named like a member that \<open>folders\<close> inherits, such as \<open>constructor\<close>:
  \<open>folders[folder]\<close> is then truthy without being an array, no bucket is created, and
  \<open>push\<close> throws. Creating such a file through \<open>createFile\<close> ends in the same exception.
\<close>

theorem renderFileTree_throws_on_inherited_name:
  "fst (renderFileTree ex_inherited) = Some TypeError
   \<and> map_option fst
        (createFile ex_host (js ''notes'') (Some (js ''constructor'')) (js ''blank'') (js ''n1'')
           ex_state)
       = Some (Some TypeError)"
  by (simp add: ex_inherited_def createFile_def template_content_def TEMPLATES_def Object_prototype_keys_def
        openFile_def save_current_first_def saveFiles_def saveCurrentId_def setItem_def
        andThen_def find_file_def dispatch_replace_def updateListener_def scheduleRender_def
        scheduleAutoSave_def renderFileTree_def or_else_def trim_def is_white_space_def
        ex_state_def ex_doc_def ex_storage_def ex_host_def truthy_def js_def Let_def
        TEMPLATES_blank_def)

end
